theory Spec2Isabelle
  imports Main
begin

section \<open>The match page script\<close>

text \<open>
  The script of a static tournament page: a constant list of match records, a routine that
  renders one card per record, a modal showing one record with its live stream, and a
  countdown timer. The host (the browser) supplies the document, the timers, the clock,
  the parsing of dates and of markup; the script's own work is the lookup by id, the
  assembling of markup strings, the null checks and the countdown arithmetic.

  Strings are the bytes of the script file, which is UTF-8: the Persian words of the
  script are written as their bytes (\<open>CHR 0xD8\<close> and so on). The encoding is injective,
  so equality of strings is what it is in the script.
\<close>

subsection \<open>Match records and the catalog\<close>

text \<open>One object of the array \<open>matchesData\<close>. The source's field \<open>id\<close> is named
  \<open>id'\<close> here, since \<open>id\<close> is the identity function of HOL.\<close>

record match =
  id' :: int
  teams :: string
  date :: string
  time :: string
  description :: string
  liveStreamLink :: string

definition match1 :: match where
  "match1 = \<lparr> id' = 1,
     teams =
     [CHR 0xD8, CHR 0xAA, CHR 0xDB, CHR 0x8C, CHR 0xD9, CHR 0x85] @ '' ''
     @ [CHR 0xD8, CHR 0xA7, CHR 0xD9, CHR 0x84, CHR 0xD9, CHR 0x81] @ '' vs ''
     @ [CHR 0xD8, CHR 0xAA, CHR 0xDB, CHR 0x8C, CHR 0xD9, CHR 0x85] @ '' ''
     @ [CHR 0xD8, CHR 0xA8],
     date =
     [CHR 0xDB, CHR 0xB1, CHR 0xDB, CHR 0xB4, CHR 0xDB, CHR 0xB0, CHR 0xDB, CHR 0xB4] @ ''/''
     @ [CHR 0xDB, CHR 0xB0, CHR 0xDB, CHR 0xB1] @ ''/''
     @ [CHR 0xDB, CHR 0xB1, CHR 0xDB, CHR 0xB0],
     time =
     [CHR 0xDB, CHR 0xB2, CHR 0xDB, CHR 0xB1] @ '':''
     @ [CHR 0xDB, CHR 0xB0, CHR 0xDB, CHR 0xB0],
     description =
     [CHR 0xD8, CHR 0xA8, CHR 0xD8, CHR 0xA7, CHR 0xD8, CHR 0xB2, CHR 0xDB, CHR 0x8C] @ '' ''
     @ [CHR 0xD8, CHR 0xA7, CHR 0xD9, CHR 0x81, CHR 0xD8, CHR 0xAA, CHR 0xD8, CHR 0xAA, CHR 0xD8, CHR 0xA7]
     @ [CHR 0xD8, CHR 0xAD, CHR 0xDB, CHR 0x8C, CHR 0xD9, CHR 0x87] @ '' ''
     @ [CHR 0xD8, CHR 0xA8, CHR 0xDB, CHR 0x8C, CHR 0xD9, CHR 0x86] @ '' ''
     @ [CHR 0xD8, CHR 0xAA, CHR 0xDB, CHR 0x8C, CHR 0xD9, CHR 0x85] @ '' ''
     @ [CHR 0xD8, CHR 0xA7, CHR 0xD9, CHR 0x84, CHR 0xD9, CHR 0x81] @ '' ''
     @ [CHR 0xD9, CHR 0x88] @ '' ''
     @ [CHR 0xD8, CHR 0xAA, CHR 0xDB, CHR 0x8C, CHR 0xD9, CHR 0x85] @ '' ''
     @ [CHR 0xD8, CHR 0xA8] @ ''. ''
     @ [CHR 0xD8, CHR 0xA7, CHR 0xD9, CHR 0x86, CHR 0xD8, CHR 0xAA, CHR 0xD8, CHR 0xB8, CHR 0xD8, CHR 0xA7]
     @ [CHR 0xD8, CHR 0xB1] @ '' ''
     @ [CHR 0xD9, CHR 0x85, CHR 0xDB, CHR 0x8C, CHR 0xE2, CHR 0x80, CHR 0x8C, CHR 0xD8, CHR 0xB1, CHR 0xD9]
     @ [CHR 0x88, CHR 0xD8, CHR 0xAF] @ '' ''
     @ [CHR 0xD8, CHR 0xA8, CHR 0xD8, CHR 0xA7, CHR 0xD8, CHR 0xB2, CHR 0xDB, CHR 0x8C]
     @ '' ''
     @ [CHR 0xD8, CHR 0xAC, CHR 0xD8, CHR 0xB0, CHR 0xD8, CHR 0xA7, CHR 0xD8, CHR 0xA8]
     @ '' '' @ [CHR 0xD9, CHR 0x88] @ '' ''
     @ [CHR 0xD9, CHR 0xBE, CHR 0xD8, CHR 0xB1, CHR 0xD8, CHR 0xAA, CHR 0xD9, CHR 0x85, CHR 0xD8, CHR 0xA7]
     @ [CHR 0xD8, CHR 0xB4, CHR 0xD8, CHR 0xA7, CHR 0xDA, CHR 0xAF, CHR 0xD8, CHR 0xB1, CHR 0xDB, CHR 0x8C]
     @ '' ''
     @ [CHR 0xD8, CHR 0xA8, CHR 0xD8, CHR 0xA7, CHR 0xD8, CHR 0xB4, CHR 0xD8, CHR 0xAF]
     @ ''.'',
     liveStreamLink =
     ''https://www.youtube.com/embed/dQw4w9WgXcQ'' \<rparr>"

definition match2 :: match where
  "match2 = \<lparr> id' = 2,
     teams =
     [CHR 0xD8, CHR 0xAA, CHR 0xDB, CHR 0x8C, CHR 0xD9, CHR 0x85] @ '' ''
     @ [CHR 0xD8, CHR 0xAC] @ '' vs ''
     @ [CHR 0xD8, CHR 0xAA, CHR 0xDB, CHR 0x8C, CHR 0xD9, CHR 0x85] @ '' ''
     @ [CHR 0xD8, CHR 0xAF],
     date =
     [CHR 0xDB, CHR 0xB1, CHR 0xDB, CHR 0xB4, CHR 0xDB, CHR 0xB0, CHR 0xDB, CHR 0xB4] @ ''/''
     @ [CHR 0xDB, CHR 0xB0, CHR 0xDB, CHR 0xB1] @ ''/''
     @ [CHR 0xDB, CHR 0xB1, CHR 0xDB, CHR 0xB1],
     time =
     [CHR 0xDB, CHR 0xB2, CHR 0xDB, CHR 0xB2] @ '':''
     @ [CHR 0xDB, CHR 0xB3, CHR 0xDB, CHR 0xB0],
     description =
     [CHR 0xD8, CHR 0xA8, CHR 0xD8, CHR 0xA7, CHR 0xD8, CHR 0xB2, CHR 0xDB, CHR 0x8C] @ '' ''
     @ [CHR 0xD8, CHR 0xAD, CHR 0xD8, CHR 0xB3, CHR 0xD8, CHR 0xA7, CHR 0xD8, CHR 0xB3]
     @ '' ''
     @ [CHR 0xD9, CHR 0x85, CHR 0xD8, CHR 0xB1, CHR 0xD8, CHR 0xAD, CHR 0xD9, CHR 0x84, CHR 0xD9, CHR 0x87]
     @ '' ''
     @ [CHR 0xD9, CHR 0x85, CHR 0xD9, CHR 0x82, CHR 0xD8, CHR 0xAF, CHR 0xD9, CHR 0x85, CHR 0xD8, CHR 0xA7]
     @ [CHR 0xD8, CHR 0xAA, CHR 0xDB, CHR 0x8C] @ '' ''
     @ [CHR 0xD8, CHR 0xA8, CHR 0xD8, CHR 0xA7] @ '' ''
     @ [CHR 0xD8, CHR 0xAD, CHR 0xD8, CHR 0xB6, CHR 0xD9, CHR 0x88, CHR 0xD8, CHR 0xB1]
     @ '' ''
     @ [CHR 0xD8, CHR 0xA8, CHR 0xD8, CHR 0xA7, CHR 0xD8, CHR 0xB2, CHR 0xDB, CHR 0x8C, CHR 0xDA, CHR 0xA9]
     @ [CHR 0xD9, CHR 0x86, CHR 0xD8, CHR 0xA7, CHR 0xD9, CHR 0x86] @ '' ''
     @ [CHR 0xD8, CHR 0xB3, CHR 0xD8, CHR 0xB1, CHR 0xD8, CHR 0xB4, CHR 0xD9, CHR 0x86, CHR 0xD8, CHR 0xA7]
     @ [CHR 0xD8, CHR 0xB3] @ '' '' @ [CHR 0xD9, CHR 0x87, CHR 0xD8, CHR 0xB1] @ '' ''
     @ [CHR 0xD8, CHR 0xAF, CHR 0xD9, CHR 0x88] @ '' ''
     @ [CHR 0xD8, CHR 0xAA, CHR 0xDB, CHR 0x8C, CHR 0xD9, CHR 0x85] @ ''.'',
     liveStreamLink =
     ''https://www.aparat.com/v/xxxxx'' \<rparr>"

definition match3 :: match where
  "match3 = \<lparr> id' = 3,
     teams =
     [CHR 0xD8, CHR 0xAA, CHR 0xDB, CHR 0x8C, CHR 0xD9, CHR 0x85] @ '' ''
     @ [CHR 0xD9, CHR 0x87] @ '' vs ''
     @ [CHR 0xD8, CHR 0xAA, CHR 0xDB, CHR 0x8C, CHR 0xD9, CHR 0x85] @ '' ''
     @ [CHR 0xD9, CHR 0x88],
     date =
     [CHR 0xDB, CHR 0xB1, CHR 0xDB, CHR 0xB4, CHR 0xDB, CHR 0xB0, CHR 0xDB, CHR 0xB4] @ ''/''
     @ [CHR 0xDB, CHR 0xB0, CHR 0xDB, CHR 0xB1] @ ''/''
     @ [CHR 0xDB, CHR 0xB1, CHR 0xDB, CHR 0xB2],
     time =
     [CHR 0xDB, CHR 0xB2, CHR 0xDB, CHR 0xB3] @ '':''
     @ [CHR 0xDB, CHR 0xB0, CHR 0xDB, CHR 0xB0],
     description =
     [CHR 0xD9, CHR 0x85, CHR 0xD8, CHR 0xB5, CHR 0xD8, CHR 0xA7, CHR 0xD9, CHR 0x81] @ '' ''
     @ [CHR 0xD8, CHR 0xAA, CHR 0xD9, CHR 0x85, CHR 0xD8, CHR 0xA7, CHR 0xD8, CHR 0xB4, CHR 0xD8, CHR 0xA7]
     @ [CHR 0xDB, CHR 0x8C, CHR 0xDB, CHR 0x8C] @ '' ''
     @ [CHR 0xD8, CHR 0xA8, CHR 0xDB, CHR 0x8C, CHR 0xD9, CHR 0x86] @ '' ''
     @ [CHR 0xD8, CHR 0xAA, CHR 0xDB, CHR 0x8C, CHR 0xD9, CHR 0x85] @ '' ''
     @ [CHR 0xD9, CHR 0x87] @ '' '' @ [CHR 0xD9, CHR 0x88] @ '' ''
     @ [CHR 0xD8, CHR 0xAA, CHR 0xDB, CHR 0x8C, CHR 0xD9, CHR 0x85] @ '' ''
     @ [CHR 0xD9, CHR 0x88] @ '' '' @ [CHR 0xDA, CHR 0xA9, CHR 0xD9, CHR 0x87] @ '' ''
     @ [CHR 0xD9, CHR 0x87, CHR 0xD8, CHR 0xB1] @ '' ''
     @ [CHR 0xD8, CHR 0xAF, CHR 0xD9, CHR 0x88] @ '' ''
     @ [CHR 0xD9, CHR 0x85, CHR 0xD8, CHR 0xAF, CHR 0xD8, CHR 0xB9, CHR 0xDB, CHR 0x8C]
     @ '' ''
     @ [CHR 0xD9, CHR 0x82, CHR 0xD9, CHR 0x87, CHR 0xD8, CHR 0xB1, CHR 0xD9, CHR 0x85, CHR 0xD8, CHR 0xA7]
     @ [CHR 0xD9, CHR 0x86, CHR 0xDB, CHR 0x8C] @ '' ''
     @ [CHR 0xD9, CHR 0x87, CHR 0xD8, CHR 0xB3, CHR 0xD8, CHR 0xAA, CHR 0xD9, CHR 0x86, CHR 0xD8, CHR 0xAF]
     @ ''.'',
     liveStreamLink =
     ''https://www.youtube.com/embed/dQw4w9WgXcQ'' \<rparr>"

definition match4 :: match where
  "match4 = \<lparr> id' = 4,
     teams =
     [CHR 0xD8, CHR 0xAA, CHR 0xDB, CHR 0x8C, CHR 0xD9, CHR 0x85] @ '' ''
     @ [CHR 0xD8, CHR 0xB2] @ '' vs ''
     @ [CHR 0xD8, CHR 0xAA, CHR 0xDB, CHR 0x8C, CHR 0xD9, CHR 0x85] @ '' ''
     @ [CHR 0xDB, CHR 0x8C],
     date =
     [CHR 0xDB, CHR 0xB1, CHR 0xDB, CHR 0xB4, CHR 0xDB, CHR 0xB0, CHR 0xDB, CHR 0xB4] @ ''/''
     @ [CHR 0xDB, CHR 0xB0, CHR 0xDB, CHR 0xB1] @ ''/''
     @ [CHR 0xDB, CHR 0xB1, CHR 0xDB, CHR 0xB3],
     time =
     [CHR 0xDB, CHR 0xB2, CHR 0xDB, CHR 0xB1] @ '':''
     @ [CHR 0xDB, CHR 0xB3, CHR 0xDB, CHR 0xB0],
     description =
     [CHR 0xD8, CHR 0xA7, CHR 0xDB, CHR 0x8C, CHR 0xD9, CHR 0x86] @ '' ''
     @ [CHR 0xD9, CHR 0x85, CHR 0xD8, CHR 0xB3, CHR 0xD8, CHR 0xA7, CHR 0xD8, CHR 0xA8, CHR 0xD9, CHR 0x82]
     @ [CHR 0xD9, CHR 0x87] @ '' ''
     @ [CHR 0xDB, CHR 0x8C, CHR 0xDA, CHR 0xA9, CHR 0xDB, CHR 0x8C] @ '' ''
     @ [CHR 0xD8, CHR 0xA7, CHR 0xD8, CHR 0xB2] @ '' ''
     @ [CHR 0xD9, CHR 0x85, CHR 0xD9, CHR 0x87, CHR 0xD9, CHR 0x85, CHR 0xE2, CHR 0x80, CHR 0x8C, CHR 0xD8]
     @ [CHR 0xAA, CHR 0xD8, CHR 0xB1, CHR 0xDB, CHR 0x8C, CHR 0xD9, CHR 0x86] @ '' ''
     @ [CHR 0xD8, CHR 0xA8, CHR 0xD8, CHR 0xA7, CHR 0xD8, CHR 0xB2, CHR 0xDB, CHR 0x8C, CHR 0xE2, CHR 0x80]
     @ [CHR 0x8C, CHR 0xD9, CHR 0x87, CHR 0xD8, CHR 0xA7, CHR 0xDB, CHR 0x8C] @ '' ''
     @ [CHR 0xD9, CHR 0x85, CHR 0xD8, CHR 0xB1, CHR 0xD8, CHR 0xAD, CHR 0xD9, CHR 0x84, CHR 0xD9, CHR 0x87]
     @ '' ''
     @ [CHR 0xDB, CHR 0x8C, CHR 0xDA, CHR 0xA9, CHR 0xE2, CHR 0x80, CHR 0x8C, CHR 0xDA, CHR 0x86, CHR 0xD9]
     @ [CHR 0x87, CHR 0xD8, CHR 0xA7, CHR 0xD8, CHR 0xB1, CHR 0xD9, CHR 0x85] @ '' ''
     @ [CHR 0xD9, CHR 0x86, CHR 0xD9, CHR 0x87, CHR 0xD8, CHR 0xA7, CHR 0xDB, CHR 0x8C, CHR 0xDB, CHR 0x8C]
     @ '' ''
     @ [CHR 0xD9, CHR 0x85, CHR 0xD8, CHR 0xAD, CHR 0xD8, CHR 0xB3, CHR 0xD9, CHR 0x88, CHR 0xD8, CHR 0xA8]
     @ '' ''
     @ [CHR 0xD9, CHR 0x85, CHR 0xDB, CHR 0x8C, CHR 0xE2, CHR 0x80, CHR 0x8C, CHR 0xD8, CHR 0xB4, CHR 0xD9]
     @ [CHR 0x88, CHR 0xD8, CHR 0xAF] @ ''.'',
     liveStreamLink =
     ''https://www.youtube.com/embed/dQw4w9WgXcQ'' \<rparr>"

definition matchesData :: "match list" where
  "matchesData = [match1, match2, match3, match4]"

subsection \<open>Markup written by the script\<close>

text \<open>The Persian labels of the templates: "date", "hour", "details", "live broadcast".\<close>

definition label_date :: string where
  "label_date = [CHR 0xD8, CHR 0xAA, CHR 0xD8, CHR 0xA7, CHR 0xD8, CHR 0xB1, CHR 0xDB, CHR 0x8C, CHR 0xD8, CHR 0xAE]"

definition label_time :: string where
  "label_time = [CHR 0xD8, CHR 0xB3, CHR 0xD8, CHR 0xA7, CHR 0xD8, CHR 0xB9, CHR 0xD8, CHR 0xAA]"

definition label_details :: string where
  "label_details = [CHR 0xD8, CHR 0xAC, CHR 0xD8, CHR 0xB2, CHR 0xD8, CHR 0xA6, CHR 0xDB, CHR 0x8C, CHR 0xD8, CHR 0xA7]      @ [CHR 0xD8, CHR 0xAA]"

definition label_live :: string where
  "label_live = [CHR 0xD9, CHR 0xBE, CHR 0xD8, CHR 0xAE, CHR 0xD8, CHR 0xB4] @ '' ''      @ [CHR 0xD8, CHR 0xB2, CHR 0xD9, CHR 0x86, CHR 0xD8, CHR 0xAF, CHR 0xD9, CHR 0x87]"

text \<open>The template literal assigned to \<open>card.innerHTML\<close> in \<open>loadMatches\<close>, with its line
  breaks and indentation; the three interpolations are not escaped.\<close>

definition card_markup :: "match \<Rightarrow> string" where
  "card_markup m =
     [CHR 0x0A] @ ''      <h3>''
     @ teams m
     @ ''</h3>'' @ [CHR 0x0A] @ ''      <p><strong>''
     @ label_date
     @ '':</strong> ''
     @ date m
     @ ''</p>'' @ [CHR 0x0A] @ ''      <p><strong>''
     @ label_time
     @ '':</strong> ''
     @ time m
     @ ''</p>'' @ [CHR 0x0A] @ ''      <a href='' @ [CHR 0x22] @ ''javascript:void(0)''
     @ [CHR 0x22] @ '' class='' @ [CHR 0x22] @ ''btn-match-details'' @ [CHR 0x22] @ ''>''
     @ label_details
     @ ''</a>'' @ [CHR 0x0A] @ ''    ''"

text \<open>The template literal assigned to \<open>matchDetailsEl.innerHTML\<close> in
  \<open>showMatchDetails\<close>.\<close>

definition details_markup :: "match \<Rightarrow> string" where
  "details_markup m =
     [CHR 0x0A] @ ''    <h2>''
     @ teams m
     @ ''</h2>'' @ [CHR 0x0A] @ ''    <p><strong>''
     @ label_date
     @ '':</strong> ''
     @ date m
     @ ''</p>'' @ [CHR 0x0A] @ ''    <p><strong>''
     @ label_time
     @ '':</strong> ''
     @ time m
     @ ''</p>'' @ [CHR 0x0A] @ ''    <p>''
     @ description m
     @ ''</p>'' @ [CHR 0x0A] @ ''    <h3>''
     @ label_live
     @ ''</h3>'' @ [CHR 0x0A] @ ''    <iframe '' @ [CHR 0x0A] @ ''      src='' @ [CHR 0x22]
     @ liveStreamLink m
     @ [CHR 0x22] @ '' '' @ [CHR 0x0A] @ ''      width='' @ [CHR 0x22] @ ''100%'' @ [CHR 0x22]
     @ '' '' @ [CHR 0x0A] @ ''      height='' @ [CHR 0x22] @ ''360'' @ [CHR 0x22] @ '' ''
     @ [CHR 0x0A] @ ''      allowfullscreen>'' @ [CHR 0x0A] @ ''    </iframe>'' @ [CHR 0x0A]
     @ ''  ''"

text \<open>The string assigned to \<open>countdownElement.innerHTML\<close> when the target has passed:
  a paragraph saying that the game has started.\<close>

definition started_markup :: string where
  "started_markup =
     ''<p>''
     @ [CHR 0xD8, CHR 0xA8, CHR 0xD8, CHR 0xA7, CHR 0xD8, CHR 0xB2, CHR 0xDB, CHR 0x8C]
     @ '' ''
     @ [CHR 0xD8, CHR 0xB4, CHR 0xD8, CHR 0xB1, CHR 0xD9, CHR 0x88, CHR 0xD8, CHR 0xB9]
     @ '' '' @ [CHR 0xD8, CHR 0xB4, CHR 0xD8, CHR 0xAF, CHR 0xD9, CHR 0x87] @ '' ''
     @ [CHR 0xD8, CHR 0xA7, CHR 0xD8, CHR 0xB3, CHR 0xD8, CHR 0xAA] @ ''!</p>''"

subsection \<open>Numbers\<close>

text \<open>
  The numbers of the countdown are time values and their differences, quotients and
  remainders. A time value (what \<open>getTime()\<close> gives, for the target and for the clock)
  is an integer number of milliseconds of magnitude at most 8.64e15, or \<open>NaN\<close> for a
  date that does not parse. All of these are doubles that hold an integer, or \<open>NaN\<close>, so
  a number is modelled as an integer or \<open>NaN\<close>, and each operation gives the integer
  that the operation on doubles gives:
  \<^item> the difference of two integers is rounded to the nearest double (53 significant
    binary digits, a tie to the even one), which changes it only beyond 2^53;
  \<^item> the remainder of doubles is exact;
  \<^item> \<open>Math.floor\<close> of the quotient by one of the divisors used is the floor of the
    exact quotient when the dividend is a remainder, or the difference of two time
    values: that difference is below 2^54 in magnitude, and is even once it is beyond
    2^53, so the rounded quotient does not reach the next integer.
\<close>

datatype number = Num int | NaN

text \<open>The integers of magnitude at most 8.64e15: the time values.\<close>

definition time_value :: "int \<Rightarrow> bool" where
  "time_value t = (\<bar>t\<bar> \<le> 8640000000000000)"

text \<open>The number of binary digits of a natural number.\<close>

fun bit_length :: "nat \<Rightarrow> nat" where
  "bit_length n = (if n = 0 then 0 else Suc (bit_length (n div 2)))"

declare bit_length.simps [simp del]

text \<open>How many times \<open>u\<close> goes into \<open>m\<close>, rounded to the nearest, a tie to the even
  count.\<close>

definition round_half_even :: "nat \<Rightarrow> nat \<Rightarrow> nat" where
  "round_half_even m u =
     (if u < 2 * (m mod u) \<or> (u = 2 * (m mod u) \<and> odd (m div u)) then m div u + 1
      else m div u)"

text \<open>The double nearest to an integer: the integer itself when it has at most 53 binary
  digits, otherwise the nearest multiple of the unit in which its leading 53 digits
  count.\<close>

definition round_to_double :: "int \<Rightarrow> int" where
  "round_to_double d =
     (let m = nat \<bar>d\<bar>; u = 2 ^ (bit_length m - 53)
      in sgn d * int (round_half_even m u * u))"

text \<open>\<open>a - b\<close>\<close>

fun minus_number :: "number \<Rightarrow> number \<Rightarrow> number" where
  "minus_number (Num a) (Num b) = Num (round_to_double (a - b))"
| "minus_number _ _ = NaN"

text \<open>\<open>a < 0\<close>: false for \<open>NaN\<close>.\<close>

fun less_zero :: "number \<Rightarrow> bool" where
  "less_zero (Num a) = (a < 0)"
| "less_zero NaN = False"

text \<open>\<open>a % c\<close> for a positive integer \<open>c\<close>: the remainder has the sign of the dividend.\<close>

fun remainder :: "number \<Rightarrow> int \<Rightarrow> number" where
  "remainder (Num a) c = Num (if a < 0 then - ((- a) mod c) else a mod c)"
| "remainder NaN c = NaN"

text \<open>\<open>Math.floor(a / c)\<close> for a positive integer \<open>c\<close>.\<close>

fun Math_floor_div :: "number \<Rightarrow> int \<Rightarrow> number" where
  "Math_floor_div (Num a) c = Num (a div c)"
| "Math_floor_div NaN c = NaN"

text \<open>The conversion of a number to a string that the setter of \<open>textContent\<close>
  applies: decimal digits for an integer (of magnitude below 1e21, as all here are).\<close>

fun digits :: "nat \<Rightarrow> string" where
  "digits n = (if n < 10 then [''0123456789'' ! n]
               else digits (n div 10) @ [''0123456789'' ! (n mod 10)])"

declare digits.simps [simp del]

fun ToString :: "number \<Rightarrow> string" where
  "ToString (Num a) = (if a < 0 then ''-'' @ digits (nat (- a)) else digits (nat a))"
| "ToString NaN = ''NaN''"

subsection \<open>The document\<close>

text \<open>
  The script reaches the page only through \<open>document.getElementById\<close>, so the document
  is the map from an id to the element that has it (\<open>None\<close> is the script's \<open>null\<close>).
  The page's markup is not part of the script; its elements are taken to be separate
  objects, none of which leaves the document when the content of another is replaced.

  Of an element the script touches \<open>style.display\<close>, its content and its click listeners.
  The content is a list of nodes: the markup assigned through \<open>innerHTML\<close> (kept as the
  string, which the host parses), the text assigned through \<open>textContent\<close>, and the cards
  appended by \<open>loadMatches\<close>.

  A card is the \<open>div\<close> that \<open>loadMatches\<close> creates: its class name, the markup assigned
  to its \<open>innerHTML\<close>, and the id that the click listener of its details control passes
  to \<open>showMatchDetails\<close>.
\<close>

record card =
  className :: string
  innerHTML :: string
  detailsBtn_click :: int

datatype node = Markup string | Text string | Card card

text \<open>The two listeners that the page-ready handler attaches: \<open>closeModal\<close> itself on the
  close control, and on the overlay the function that calls \<open>closeModal\<close> when the event's
  target is the overlay.\<close>

datatype listener = CloseModal_listener | Backdrop_listener

record element =
  display :: string
  childNodes :: "node list"
  click_listeners :: "listener list"

type_synonym document = "string \<Rightarrow> element option"

text \<open>The setter of \<open>innerHTML\<close>: the nodes that the markup parses to replace the
  children; the empty string parses to no node.\<close>

definition set_innerHTML :: "string \<Rightarrow> element \<Rightarrow> element" where
  "set_innerHTML s e = e\<lparr>childNodes := (if s = [] then [] else [Markup s])\<rparr>"

text \<open>The setter of \<open>textContent\<close> with a number: one text node holding its string.\<close>

definition set_textContent :: "number \<Rightarrow> element \<Rightarrow> element" where
  "set_textContent v e = e\<lparr>childNodes := [Text (ToString v)]\<rparr>"

definition appendChild :: "node \<Rightarrow> element \<Rightarrow> element" where
  "appendChild n e = e\<lparr>childNodes := childNodes e @ [n]\<rparr>"

subsection \<open>The host and the state of the page\<close>

text \<open>
  What the script asks of the host besides the document:
  \<^item> \<open>querySelector markup selector\<close>: whether \<open>querySelector(selector)\<close> on an element
    whose \<open>innerHTML\<close> was set to \<open>markup\<close> finds an element (otherwise it gives \<open>null\<close>);
  \<^item> \<open>Date_getTime s\<close>: \<open>new Date(s).getTime()\<close>.
\<close>

record host =
  querySelector :: "string \<Rightarrow> string \<Rightarrow> bool"
  Date_getTime :: "string \<Rightarrow> number"

text \<open>
  The state that the script reads and writes: the array bound to \<open>matchesData\<close> (a
  mutable array in the language, a field here so that what the script does to it can be
  stated), the document, and the intervals that are scheduled: the handle that
  \<open>setInterval\<close> returned with the \<open>endDate\<close> that the callback closes over. Handles are
  issued in increasing order.
\<close>

record world =
  catalog :: "match list"
  doc :: document
  intervals :: "(nat \<times> number) list"
  next_handle :: nat

text \<open>A call either returns or throws; a throw keeps what was written before it.\<close>

datatype js_error = TypeError

datatype outcome = Returned world | Thrown js_error world

fun state_of :: "outcome \<Rightarrow> world" where
  "state_of (Returned w) = w"
| "state_of (Thrown e w) = w"

fun and_then :: "outcome \<Rightarrow> (world \<Rightarrow> outcome) \<Rightarrow> outcome" where
  "and_then (Returned w) f = f w"
| "and_then (Thrown e w) f = Thrown e w"

text \<open>Replacing the element that has the id \<open>k\<close>.\<close>

definition put_element :: "string \<Rightarrow> element \<Rightarrow> world \<Rightarrow> world" where
  "put_element k e w = w\<lparr>doc := (doc w)(k \<mapsto> e)\<rparr>"

subsection \<open>\<open>loadMatches\<close>\<close>

definition make_card :: "match \<Rightarrow> card" where
  "make_card m = \<lparr> className = ''match-card'', innerHTML = card_markup m,
                   detailsBtn_click = id' m \<rparr>"

text \<open>
  The body of the \<open>forEach\<close> callback, for the records in order: the card is created and
  filled, \<open>detailsBtn.addEventListener\<close> throws a \<open>TypeError\<close> when \<open>querySelector\<close> gave
  \<open>null\<close> (which ends the \<open>forEach\<close>), otherwise the card is appended to the container.
\<close>

fun forEach_match :: "host \<Rightarrow> element \<Rightarrow> match list \<Rightarrow> world \<Rightarrow> outcome" where
  "forEach_match h container [] w = Returned (put_element ''matches-container'' container w)"
| "forEach_match h container (m # ms) w =
     (if querySelector h (card_markup m) ''.btn-match-details''
      then forEach_match h (appendChild (Card (make_card m)) container) ms w
      else Thrown TypeError (put_element ''matches-container'' container w))"

definition loadMatches :: "host \<Rightarrow> world \<Rightarrow> outcome" where
  "loadMatches h w =
     (case doc w ''matches-container'' of
        None \<Rightarrow> Returned w
      | Some container \<Rightarrow> forEach_match h (set_innerHTML [] container) (catalog w) w)"

subsection \<open>\<open>showMatchDetails\<close> and \<open>closeModal\<close>\<close>

text \<open>\<open>matchesData.find(m => m.id === matchId)\<close>: the first record with the id.\<close>

definition find_match :: "match list \<Rightarrow> int \<Rightarrow> match option" where
  "find_match ms matchId = find (\<lambda>m. id' m = matchId) ms"

text \<open>Neither element is checked for \<open>null\<close>: the assignment to a property of \<open>null\<close>
  throws a \<open>TypeError\<close>.\<close>

definition showMatchDetails :: "int \<Rightarrow> world \<Rightarrow> outcome" where
  "showMatchDetails matchId w =
     (case find_match (catalog w) matchId of
        None \<Rightarrow> Returned w
      | Some m \<Rightarrow>
          (case doc w ''match-details'' of
             None \<Rightarrow> Thrown TypeError w
           | Some matchDetailsEl \<Rightarrow>
               (let w1 = put_element ''match-details''
                           (set_innerHTML (details_markup m) matchDetailsEl) w
                in case doc w1 ''match-modal'' of
                     None \<Rightarrow> Thrown TypeError w1
                   | Some modal \<Rightarrow>
                       Returned (put_element ''match-modal'' (modal\<lparr>display := ''block''\<rparr>) w1))))"

definition closeModal :: "world \<Rightarrow> outcome" where
  "closeModal w =
     (case doc w ''match-modal'' of
        None \<Rightarrow> Thrown TypeError w
      | Some modal \<Rightarrow>
          (let w1 = put_element ''match-modal'' (modal\<lparr>display := ''none''\<rparr>) w
           in case doc w1 ''match-details'' of
                None \<Rightarrow> Thrown TypeError w1
              | Some matchDetailsEl \<Rightarrow>
                  Returned (put_element ''match-details'' (set_innerHTML [] matchDetailsEl) w1)))"

subsection \<open>\<open>startCountdown\<close>\<close>

text \<open>\<open>setInterval\<close> and \<open>clearInterval\<close>.\<close>

definition setInterval :: "number \<Rightarrow> world \<Rightarrow> world" where
  "setInterval endDate w =
     w\<lparr>intervals := intervals w @ [(next_handle w, endDate)],
       next_handle := Suc (next_handle w)\<rparr>"

definition clearInterval :: "nat \<Rightarrow> world \<Rightarrow> world" where
  "clearInterval interval w =
     w\<lparr>intervals := filter (\<lambda>p. fst p \<noteq> interval) (intervals w)\<rparr>"

definition startCountdown :: "host \<Rightarrow> string \<Rightarrow> world \<Rightarrow> outcome" where
  "startCountdown h dateString w =
     (case doc w ''countdown-timer'' of
        None \<Rightarrow> Returned w
      | Some countdownElement \<Rightarrow> Returned (setInterval (Date_getTime h dateString) w))"

text \<open>\<open>document.getElementById(k).textContent = v\<close>, which throws when there is no such
  element.\<close>

definition write_slot :: "string \<Rightarrow> number \<Rightarrow> world \<Rightarrow> outcome" where
  "write_slot k v w =
     (case doc w k of
        None \<Rightarrow> Thrown TypeError w
      | Some e \<Rightarrow> Returned (put_element k (set_textContent v e) w))"

text \<open>
  The callback of the interval \<open>interval\<close>, run at the time \<open>now\<close> (the value of
  \<open>new Date().getTime()\<close>, an integer). \<open>countdownElement\<close> is the element found when
  the countdown was started; it is the one the document has under that id.
\<close>

definition tick :: "nat \<Rightarrow> number \<Rightarrow> int \<Rightarrow> world \<Rightarrow> outcome" where
  "tick interval endDate now w =
     (let distance = minus_number endDate (Num now) in
      if less_zero distance then
        (let w1 = clearInterval interval w
         in Returned (w1\<lparr>doc := (doc w1)(''countdown-timer'' :=
                         map_option (set_innerHTML started_markup) (doc w1 ''countdown-timer''))\<rparr>))
      else
        (let days = Math_floor_div distance (1000 * 60 * 60 * 24);
             hours = Math_floor_div (remainder distance (1000 * 60 * 60 * 24)) (1000 * 60 * 60);
             minutes = Math_floor_div (remainder distance (1000 * 60 * 60)) (1000 * 60);
             seconds = Math_floor_div (remainder distance (1000 * 60)) 1000
         in and_then (and_then (and_then (write_slot ''days'' days w)
                (write_slot ''hours'' hours)) (write_slot ''minutes'' minutes))
                (write_slot ''seconds'' seconds)))"

text \<open>The page as the script finds it: the catalog is the constant array, and nothing is
  scheduled.\<close>

definition initial_world :: "document \<Rightarrow> world" where
  "initial_world d = \<lparr> catalog = matchesData, doc = d, intervals = [], next_handle = 0 \<rparr>"

subsection \<open>The page-ready handler and the events of the page\<close>

text \<open>\<open>addEventListener\<close> does not add a listener that the element already has;
  \<open>closeModal\<close> is one function, while the arrow function on the overlay is a new one
  each time the handler runs.\<close>

definition DOMContentLoaded_handler :: "world \<Rightarrow> world" where
  "DOMContentLoaded_handler w =
     (let w1 = (case doc w ''close-modal'' of
                  None \<Rightarrow> w
                | Some closeBtn \<Rightarrow>
                    put_element ''close-modal''
                      (closeBtn\<lparr>click_listeners := List.insert CloseModal_listener
                                   (click_listeners closeBtn)\<rparr>) w)
      in case doc w1 ''match-modal'' of
           None \<Rightarrow> w1
         | Some modal \<Rightarrow>
             put_element ''match-modal''
               (modal\<lparr>click_listeners := click_listeners modal @ [Backdrop_listener]\<rparr>) w1)"

text \<open>A listener run for a click; \<open>at_target\<close> says that the event's target is the
  element the listener is on. An exception that a listener throws is reported by the host
  and the page goes on with the state as it is.\<close>

fun run_listener :: "bool \<Rightarrow> listener \<Rightarrow> world \<Rightarrow> world" where
  "run_listener at_target CloseModal_listener w = state_of (closeModal w)"
| "run_listener at_target Backdrop_listener w =
     (if at_target then state_of (closeModal w) else w)"

text \<open>
  What can happen on the page: a call of one of the four functions, the page becoming
  ready, a click on the details control of the \<open>k\<close>-th child of the card container, a
  click on (or inside) the element with an id, and the host running the callback of an
  interval at some time. A cleared interval is never run.
\<close>

datatype event =
    Call_loadMatches
  | Call_showMatchDetails int
  | Call_closeModal
  | Call_startCountdown string
  | DOMContentLoaded
  | Click_details nat
  | Click string bool
  | Interval_fires nat int

fun click_details :: "node list \<Rightarrow> nat \<Rightarrow> world \<Rightarrow> world" where
  "click_details [] k w = w"
| "click_details (Card c # ns) 0 w = state_of (showMatchDetails (detailsBtn_click c) w)"
| "click_details (n # ns) 0 w = w"
| "click_details (n # ns) (Suc k) w = click_details ns k w"

definition fire :: "nat \<Rightarrow> int \<Rightarrow> world \<Rightarrow> outcome" where
  "fire interval now w =
     (case map_of (intervals w) interval of
        None \<Rightarrow> Returned w
      | Some endDate \<Rightarrow> tick interval endDate now w)"

fun step :: "host \<Rightarrow> event \<Rightarrow> world \<Rightarrow> world" where
  "step h Call_loadMatches w = state_of (loadMatches h w)"
| "step h (Call_showMatchDetails matchId) w = state_of (showMatchDetails matchId w)"
| "step h Call_closeModal w = state_of (closeModal w)"
| "step h (Call_startCountdown dateString) w = state_of (startCountdown h dateString w)"
| "step h DOMContentLoaded w = DOMContentLoaded_handler w"
| "step h (Click_details k) w =
     (case doc w ''matches-container'' of
        None \<Rightarrow> w
      | Some container \<Rightarrow> click_details (childNodes container) k w)"
| "step h (Click k at_target) w =
     (case doc w k of
        None \<Rightarrow> w
      | Some e \<Rightarrow> fold (run_listener at_target) (click_listeners e) w)"
| "step h (Interval_fires interval now) w = state_of (fire interval now w)"

fun run :: "host \<Rightarrow> event list \<Rightarrow> world \<Rightarrow> world" where
  "run h [] w = w"
| "run h (ev # evs) w = run h evs (step h ev w)"

subsection \<open>Invariants and example pages\<close>


text \<open>\<open>w'\<close> differs from \<open>w\<close> in the document at most, and has every element that
  \<open>w\<close> has.\<close>

definition doc_only :: "world \<Rightarrow> world \<Rightarrow> bool" where
  "doc_only w w' =
     (catalog w' = catalog w \<and> intervals w' = intervals w \<and> next_handle w' = next_handle w
      \<and> dom (doc w) \<subseteq> dom (doc w'))"


text \<open>
  A host for the examples. It reads comments as the tokenizer of HTML does: a comment
  opens with \<open><!--\<close> and runs up to \<open>-->\<close> or \<open>--!>\<close>, or to the end of the markup
  when neither follows; \<open><!-->\<close> and \<open><!--->\<close> are empty comments, and any other
  \<open><!\<close> opens a declaration that runs up to \<open>>\<close>. \<open>outside_comments\<close> is the markup
  without its comments and declarations. For a class selector the host looks for the
  class attribute, as the templates write it, outside comments; on the markup of the
  examples below that is what \<open>querySelector\<close> finds in a browser. The host parses one
  date, ninety seconds after the epoch.
\<close>

datatype scan_state =
    Data | TagOpen | MarkupDeclaration | MarkupDeclarationDash | BogusComment
  | CommentStart | CommentStartDash | Comment | CommentEndDash | CommentEnd | CommentEndBang

fun outside_comments :: "scan_state \<Rightarrow> string \<Rightarrow> string" where
  "outside_comments TagOpen [] = ''<''"
| "outside_comments st [] = []"
| "outside_comments Data (c # s) =
     (if c = CHR ''<'' then outside_comments TagOpen s else c # outside_comments Data s)"
| "outside_comments TagOpen (c # s) =
     (if c = CHR ''!'' then outside_comments MarkupDeclaration s
      else if c = CHR ''<'' then CHR ''<'' # outside_comments TagOpen s
      else CHR ''<'' # c # outside_comments Data s)"
| "outside_comments MarkupDeclaration (c # s) =
     (if c = CHR ''-'' then outside_comments MarkupDeclarationDash s
      else if c = CHR ''>'' then outside_comments Data s
      else outside_comments BogusComment s)"
| "outside_comments MarkupDeclarationDash (c # s) =
     (if c = CHR ''-'' then outside_comments CommentStart s
      else if c = CHR ''>'' then outside_comments Data s
      else outside_comments BogusComment s)"
| "outside_comments BogusComment (c # s) =
     (if c = CHR ''>'' then outside_comments Data s else outside_comments BogusComment s)"
| "outside_comments CommentStart (c # s) =
     (if c = CHR ''-'' then outside_comments CommentStartDash s
      else if c = CHR ''>'' then outside_comments Data s
      else outside_comments Comment s)"
| "outside_comments CommentStartDash (c # s) =
     (if c = CHR ''-'' then outside_comments CommentEnd s
      else if c = CHR ''>'' then outside_comments Data s
      else outside_comments Comment s)"
| "outside_comments Comment (c # s) =
     (if c = CHR ''-'' then outside_comments CommentEndDash s else outside_comments Comment s)"
| "outside_comments CommentEndDash (c # s) =
     (if c = CHR ''-'' then outside_comments CommentEnd s else outside_comments Comment s)"
| "outside_comments CommentEnd (c # s) =
     (if c = CHR ''>'' then outside_comments Data s
      else if c = CHR ''!'' then outside_comments CommentEndBang s
      else if c = CHR ''-'' then outside_comments CommentEnd s
      else outside_comments Comment s)"
| "outside_comments CommentEndBang (c # s) =
     (if c = CHR ''-'' then outside_comments CommentEndDash s
      else if c = CHR ''>'' then outside_comments Data s
      else outside_comments Comment s)"

fun occurs_in :: "string \<Rightarrow> string \<Rightarrow> bool" where
  "occurs_in pat [] = (pat = [])"
| "occurs_in pat (c # s) = (take (length pat) (c # s) = pat \<or> occurs_in pat s)"

definition finds_class :: "string \<Rightarrow> string \<Rightarrow> bool" where
  "finds_class markup selector =
     (case selector of
        [] \<Rightarrow> False
      | c # name \<Rightarrow>
          c = CHR ''.'' \<and>
          occurs_in (''class='' @ [CHR 0x22] @ name @ [CHR 0x22]) (outside_comments Data markup))"

text \<open>A page with every element that the script looks up, each empty; a page with the
  card container alone; and the example page with the countdown to the date that the
  host parses started.\<close>

definition blank :: element where
  "blank = \<lparr> display = [], childNodes = [], click_listeners = [] \<rparr>"

definition example_page :: document where
  "example_page =
     [''matches-container'' \<mapsto> blank, ''match-modal'' \<mapsto> blank,
      ''match-details'' \<mapsto> blank, ''close-modal'' \<mapsto> blank,
      ''countdown-timer'' \<mapsto> blank, ''days'' \<mapsto> blank, ''hours'' \<mapsto> blank,
      ''minutes'' \<mapsto> blank, ''seconds'' \<mapsto> blank]"

definition cards_only_page :: document where
  "cards_only_page = [''matches-container'' \<mapsto> blank]"

definition example_host :: host where
  "example_host =
     \<lparr> querySelector = finds_class,
       Date_getTime = (\<lambda>s. if s = ''1970-01-01T00:01:30Z'' then Num 90000 else NaN) \<rparr>"

definition counting_world :: world where
  "counting_world =
     state_of (startCountdown example_host ''1970-01-01T00:01:30Z'' (initial_world example_page))"


text \<open>The example page after a call of \<open>closeModal\<close>, and after the details of the
  second match were shown.\<close>

definition closed_world :: world where
  "closed_world = state_of (closeModal (initial_world example_page))"

definition shown_world :: world where
  "shown_world = state_of (showMatchDetails 2 (initial_world example_page))"

text \<open>A catalog whose second record has a comment opener for its teams, on the example
  page.\<close>

definition comment_match :: match where
  "comment_match = match2\<lparr>teams := ''<!--''\<rparr>"

definition comment_world :: world where
  "comment_world =
     \<lparr> catalog = [match1, comment_match, match3, match4], doc = example_page,
       intervals = [], next_handle = 0 \<rparr>"

text \<open>The example page with an interval scheduled for the last time value.\<close>

definition far_world :: world where
  "far_world =
     \<lparr> catalog = matchesData, doc = example_page,
       intervals = [(0, Num 8640000000000000)], next_handle = 1 \<rparr>"

section \<open>Properties\<close>

subsection \<open>Numbers\<close>

lemma bit_length_le: "n < 2 ^ k \<Longrightarrow> bit_length n \<le> k"
proof (induction k arbitrary: n)
  case 0
  then show ?case by (simp add: bit_length.simps)
next
  case (Suc k)
  show ?case
  proof (cases "n = 0")
    case True
    then show ?thesis by (simp add: bit_length.simps)
  next
    case False
    from Suc.prems have "n div 2 < 2 ^ k" by simp
    then have "bit_length (n div 2) \<le> k" by (rule Suc.IH)
    with False show ?thesis by (subst bit_length.simps) simp
  qed
qed

lemma bit_length_lower: "0 < n \<Longrightarrow> 2 ^ (bit_length n - 1) \<le> n"
proof (induction n rule: bit_length.induct)
  case (1 n)
  show ?case
  proof (cases "n div 2 = 0")
    case True
    with "1.prems" have "bit_length n = 1"
      by (simp add: bit_length.simps [of n] bit_length.simps [of 0])
    with "1.prems" show ?thesis by simp
  next
    case False
    then have pos: "0 < n div 2" by simp
    with "1.IH" "1.prems" have ih: "2 ^ (bit_length (n div 2) - 1) \<le> n div 2" by simp
    from pos have "0 < bit_length (n div 2)" by (simp add: bit_length.simps [of "n div 2"])
    then have "bit_length n - 1 = Suc (bit_length (n div 2) - 1)"
      using "1.prems" by (simp add: bit_length.simps [of n])
    then have "2 ^ (bit_length n - 1) = 2 * 2 ^ (bit_length (n div 2) - 1)" by simp
    also have "\<dots> \<le> 2 * (n div 2)" using ih by simp
    also have "\<dots> \<le> n" by simp
    finally show ?thesis .
  qed
qed

lemma round_half_even_one: "round_half_even m (Suc 0) = m"
  by (simp add: round_half_even_def)

lemma round_half_even_ge: "m div u \<le> round_half_even m u"
  by (simp add: round_half_even_def)

text \<open>Below 2^53 the difference is exact.\<close>

lemma round_to_double_exact:
  assumes "\<bar>d\<bar> < 2 ^ 53"
  shows "round_to_double d = d"
proof -
  from assms have "nat \<bar>d\<bar> < 2 ^ 53" by (simp add: nat_less_iff)
  then have "bit_length (nat \<bar>d\<bar>) \<le> 53" by (rule bit_length_le)
  then have "bit_length (nat \<bar>d\<bar>) - 53 = 0" by simp
  then show ?thesis
    by (simp add: round_to_double_def Let_def round_half_even_one sgn_if)
qed

lemma round_to_double_positive:
  assumes "d \<noteq> 0"
  shows "0 < round_half_even (nat \<bar>d\<bar>) (2 ^ (bit_length (nat \<bar>d\<bar>) - 53))
               * (2::nat) ^ (bit_length (nat \<bar>d\<bar>) - 53)"
proof -
  let ?m = "nat \<bar>d\<bar>"
  let ?u = "(2::nat) ^ (bit_length ?m - 53)"
  from assms have m: "0 < ?m" by simp
  have "?u \<le> 2 ^ (bit_length ?m - 1)" by (rule power_increasing) simp_all
  also have "\<dots> \<le> ?m" using m by (rule bit_length_lower)
  finally have "?u \<le> ?m" .
  then have "0 < ?m div ?u" by (simp add: div_greater_zero_iff)
  also have "?m div ?u \<le> round_half_even ?m ?u" by (rule round_half_even_ge)
  finally have "0 < round_half_even ?m ?u" .
  moreover have "0 < ?u" by simp
  ultimately show ?thesis by (rule mult_pos_pos)
qed

lemma sgn_times_positive: "0 < n \<Longrightarrow> (sgn d * int n < 0) = (d < (0::int))"
  by (cases "d < 0"; cases "d = 0") (simp_all add: mult_less_0_iff)

text \<open>Rounding keeps the sign, and zero.\<close>

lemma round_to_double_negative: "(round_to_double d < 0) = (d < 0)"
proof (cases "d = 0")
  case True
  then show ?thesis by (simp add: round_to_double_def Let_def)
next
  case False
  show ?thesis
    unfolding round_to_double_def Let_def
    by (rule sgn_times_positive) (rule round_to_double_positive [OF False])
qed

lemma round_to_double_zero: "round_to_double 0 = 0"
  by (simp add: round_to_double_def Let_def)

text \<open>Beyond 2^53 it does round: the difference of the last time value and the first
  but one is odd, and becomes the even double next to it.\<close>

lemma bit_length_far: "bit_length 17279999999999999 = 54"
  by (simp add: bit_length.simps)

lemma round_to_double_far:
  "round_to_double (8640000000000000 - (- 8639999999999999)) = 17280000000000000"
  by (simp add: round_to_double_def Let_def round_half_even_def bit_length_far)

subsection \<open>What the operations leave alone\<close>

lemma doc_only_refl: "doc_only w w"
  by (simp add: doc_only_def)

lemma doc_only_put: "doc_only w w' \<Longrightarrow> doc_only w (put_element k e w')"
  by (auto simp: doc_only_def put_element_def)

lemma doc_only_trans: "doc_only w w' \<Longrightarrow> doc_only w' w'' \<Longrightarrow> doc_only w w''"
  by (auto simp: doc_only_def)

lemma doc_only_forEach: "doc_only w (state_of (forEach_match h c ms w))"
  by (induction ms arbitrary: c) (simp_all add: doc_only_put doc_only_refl)

lemma doc_only_loadMatches: "doc_only w (state_of (loadMatches h w))"
  by (simp add: loadMatches_def doc_only_forEach doc_only_refl split: option.split)

lemma doc_only_showMatchDetails: "doc_only w (state_of (showMatchDetails i w))"
  by (simp add: showMatchDetails_def Let_def doc_only_put doc_only_refl split: option.split)

lemma doc_only_closeModal: "doc_only w (state_of (closeModal w))"
  by (simp add: closeModal_def Let_def doc_only_put doc_only_refl split: option.split)

lemma doc_only_write_slot: "doc_only w (state_of (write_slot k v w))"
  by (simp add: write_slot_def doc_only_put doc_only_refl split: option.split)

lemma doc_only_and_then:
  "doc_only w (state_of r) \<Longrightarrow> (\<And>w'. doc_only w' (state_of (f w'))) \<Longrightarrow>
   doc_only w (state_of (and_then r f))"
  by (cases r) (auto intro: doc_only_trans)

lemma doc_only_slots:
  "doc_only w (state_of (and_then (and_then (and_then (write_slot a x w) (write_slot b y))
      (write_slot c z)) (write_slot d u)))"
  by (intro doc_only_and_then doc_only_write_slot)

lemma doc_only_DOMContentLoaded: "doc_only w (DOMContentLoaded_handler w)"
  by (simp add: DOMContentLoaded_handler_def Let_def doc_only_put doc_only_refl
      split: option.split)

lemma doc_only_run_listener: "doc_only w (run_listener t l w)"
  by (cases l) (simp_all add: doc_only_closeModal doc_only_refl)

lemma doc_only_listeners: "doc_only w (fold (run_listener t) ls w)"
proof (induction ls arbitrary: w)
  case Nil
  show ?case by (simp add: doc_only_refl)
next
  case (Cons l ls)
  have "doc_only w (run_listener t l w)" by (rule doc_only_run_listener)
  moreover have "doc_only (run_listener t l w) (fold (run_listener t) ls (run_listener t l w))"
    by (rule Cons.IH)
  ultimately show ?case by (simp add: doc_only_trans)
qed

lemma doc_only_click_details: "doc_only w (click_details ns k w)"
  by (induction ns k w rule: click_details.induct)
     (simp_all add: doc_only_showMatchDetails doc_only_refl)

lemma catalog_tick: "catalog (state_of (tick i e now w)) = catalog w"
  using doc_only_slots [of w]
  by (simp add: tick_def Let_def clearInterval_def doc_only_def)


lemma intervals_tick:
  "intervals (state_of (tick i e now w)) =
     (if less_zero (minus_number e (Num now)) then filter (\<lambda>p. fst p \<noteq> i) (intervals w)
      else intervals w)"
  using doc_only_slots [of w]
  by (simp add: tick_def Let_def clearInterval_def doc_only_def)

lemma catalog_step: "catalog (step h ev w) = catalog w"
proof (cases ev)
  case Call_loadMatches
  then show ?thesis using doc_only_loadMatches [of w h] by (simp add: doc_only_def)
next
  case (Call_showMatchDetails i)
  then show ?thesis using doc_only_showMatchDetails [of w i] by (simp add: doc_only_def)
next
  case Call_closeModal
  then show ?thesis using doc_only_closeModal [of w] by (simp add: doc_only_def)
next
  case (Call_startCountdown s)
  then show ?thesis by (simp add: startCountdown_def setInterval_def split: option.split)
next
  case DOMContentLoaded
  then show ?thesis using doc_only_DOMContentLoaded [of w] by (simp add: doc_only_def)
next
  case (Click_details k)
  then show ?thesis
    using doc_only_click_details [of w _ k] by (simp add: doc_only_def split: option.split)
next
  case (Click k t)
  then show ?thesis
    using doc_only_listeners [of w t] by (simp add: doc_only_def split: option.split)
next
  case (Interval_fires i now)
  then show ?thesis by (simp add: fire_def catalog_tick split: option.split)
qed

lemma catalog_run: "catalog (run h evs w) = catalog w"
  by (induction evs arbitrary: w) (simp_all add: catalog_step)

subsection \<open>Rendering the cards\<close>

lemma forEach_match_all:
  "list_all (\<lambda>m. querySelector h (card_markup m) ''.btn-match-details'') ms \<Longrightarrow>
   forEach_match h c ms w =
     Returned (put_element ''matches-container''
                (c\<lparr>childNodes := childNodes c @ map (\<lambda>m. Card (make_card m)) ms\<rparr>) w)"
  by (induction ms arbitrary: c) (simp_all add: appendChild_def)

lemma loadMatches_result:
  assumes "doc w ''matches-container'' = Some container"
    and "\<forall>m \<in> set (catalog w). querySelector h (card_markup m) ''.btn-match-details''"
  shows "loadMatches h w =
     Returned (put_element ''matches-container''
                (container\<lparr>childNodes := map (\<lambda>m. Card (make_card m)) (catalog w)\<rparr>) w)"
proof -
  from assms(2)
  have "list_all (\<lambda>m. querySelector h (card_markup m) ''.btn-match-details'') (catalog w)"
    by (simp add: list_all_iff)
  then show ?thesis
    using assms(1) by (simp add: loadMatches_def forEach_match_all set_innerHTML_def)
qed




lemma example_container: "doc (initial_world example_page) ''matches-container'' = Some blank"
  by (simp add: initial_world_def example_page_def)

text \<open>The example host finds the details control in the cards of the four matches, and
  does not find it in the card of the record whose teams open a comment: there the rest
  of the card's markup, the control with it, is a comment.\<close>

lemma example_host_finds:
  "list_all (\<lambda>m. querySelector example_host (card_markup m) ''.btn-match-details'')
     matchesData"
  by (simp add: example_host_def finds_class_def card_markup_def matchesData_def
      match1_def match2_def match3_def match4_def label_date_def label_time_def
      label_details_def)

lemma example_host_finds_first:
  "querySelector example_host (card_markup match1) ''.btn-match-details''"
  using example_host_finds by (simp add: matchesData_def)

lemma example_host_comment:
  "\<not> querySelector example_host (card_markup comment_match) ''.btn-match-details''"
  by (simp add: example_host_def finds_class_def card_markup_def comment_match_def
      match2_def label_date_def label_time_def label_details_def)

lemma loadMatches_comment_world:
  "loadMatches example_host comment_world =
     Thrown TypeError
       (put_element ''matches-container'' (blank\<lparr>childNodes := [Card (make_card match1)]\<rparr>)
          comment_world)"
proof -
  have "doc comment_world ''matches-container'' = Some blank"
    by (simp add: comment_world_def example_page_def)
  moreover have "catalog comment_world = [match1, comment_match, match3, match4]"
    by (simp add: comment_world_def)
  ultimately show ?thesis
    by (simp add: loadMatches_def set_innerHTML_def appendChild_def
        example_host_finds_first example_host_comment blank_def)
qed

text \<open>
  C1. When the card container is in the document, and the host finds the details control
  in the markup of every card (as it does when the records' teams, dates and times are
  plain text), \<open>loadMatches\<close> returns, and the container's children are then cards, as
  many as the catalog has records and in its order, whatever the container held before:
  the \<open>i\<close>-th card has the class \<open>match-card\<close>, its markup is the heading with the
  \<open>i\<close>-th record's teams, the line with its date, the line with its time and the details
  control, and the click listener of that control passes the record's id.

  Without the condition on the host this does not hold: for a record whose teams are
  \<open><!--\<close> the rest of the card's markup is a comment, \<open>querySelector\<close> gives \<open>null\<close>,
  and \<open>loadMatches\<close> throws at \<open>detailsBtn.addEventListener\<close> with the cards of the
  records before that one in the container.
\<close>

theorem loadMatches_renders_catalog:
  assumes container: "doc w ''matches-container'' = Some container"
    and found: "\<forall>m \<in> set (catalog w). querySelector h (card_markup m) ''.btn-match-details''"
  shows "\<exists>w' cards.
           loadMatches h w = Returned w'
         \<and> map_option childNodes (doc w' ''matches-container'') = Some (map Card cards)
         \<and> length cards = length (catalog w)
         \<and> (\<forall>i < length (catalog w).
                className (cards ! i) = ''match-card''
              \<and> innerHTML (cards ! i) =
                  [CHR 0x0A] @ ''      <h3>''
                  @ teams (catalog w ! i)
                  @ ''</h3>'' @ [CHR 0x0A] @ ''      <p><strong>''
                  @ label_date
                  @ '':</strong> ''
                  @ date (catalog w ! i)
                  @ ''</p>'' @ [CHR 0x0A] @ ''      <p><strong>''
                  @ label_time
                  @ '':</strong> ''
                  @ time (catalog w ! i)
                  @ ''</p>'' @ [CHR 0x0A] @ ''      <a href='' @ [CHR 0x22] @ ''javascript:void(0)''
                  @ [CHR 0x22] @ '' class='' @ [CHR 0x22] @ ''btn-match-details'' @ [CHR 0x22] @ ''>''
                  @ label_details
                  @ ''</a>'' @ [CHR 0x0A] @ ''    ''
              \<and> detailsBtn_click (cards ! i) = id' (catalog w ! i))"
proof -
  let ?cards = "map make_card (catalog w)"
  let ?w' = "put_element ''matches-container''
               (container\<lparr>childNodes := map (\<lambda>m. Card (make_card m)) (catalog w)\<rparr>) w"
  have "loadMatches h w = Returned ?w'"
    using container found by (rule loadMatches_result)
  moreover have "map_option childNodes (doc ?w' ''matches-container'') = Some (map Card ?cards)"
    by (simp add: put_element_def)
  moreover have "length ?cards = length (catalog w)" by simp
  moreover have "\<forall>i < length (catalog w).
                className (?cards ! i) = ''match-card''
              \<and> innerHTML (?cards ! i) =
                  [CHR 0x0A] @ ''      <h3>''
                  @ teams (catalog w ! i)
                  @ ''</h3>'' @ [CHR 0x0A] @ ''      <p><strong>''
                  @ label_date
                  @ '':</strong> ''
                  @ date (catalog w ! i)
                  @ ''</p>'' @ [CHR 0x0A] @ ''      <p><strong>''
                  @ label_time
                  @ '':</strong> ''
                  @ time (catalog w ! i)
                  @ ''</p>'' @ [CHR 0x0A] @ ''      <a href='' @ [CHR 0x22] @ ''javascript:void(0)''
                  @ [CHR 0x22] @ '' class='' @ [CHR 0x22] @ ''btn-match-details'' @ [CHR 0x22] @ ''>''
                  @ label_details
                  @ ''</a>'' @ [CHR 0x0A] @ ''    ''
              \<and> detailsBtn_click (?cards ! i) = id' (catalog w ! i)"
    by (simp add: make_card_def card_markup_def)
  ultimately show ?thesis by blast
qed

theorem loadMatches_renders_catalog_witness:
  "doc (initial_world example_page) ''matches-container'' = Some blank
   \<and> list_all (\<lambda>m. querySelector example_host (card_markup m) ''.btn-match-details'')
         (catalog (initial_world example_page))
   \<and> (\<exists>w' cards.
         loadMatches example_host (initial_world example_page) = Returned w'
       \<and> map_option childNodes (doc w' ''matches-container'') = Some (map Card cards)
       \<and> length cards = 4
       \<and> className (cards ! 0) = ''match-card''
       \<and> innerHTML (cards ! 0) =
             [CHR 0x0A] @ ''      <h3>''
             @ teams match1
             @ ''</h3>'' @ [CHR 0x0A] @ ''      <p><strong>''
             @ label_date
             @ '':</strong> ''
             @ date match1
             @ ''</p>'' @ [CHR 0x0A] @ ''      <p><strong>''
             @ label_time
             @ '':</strong> ''
             @ time match1
             @ ''</p>'' @ [CHR 0x0A] @ ''      <a href='' @ [CHR 0x22] @ ''javascript:void(0)''
             @ [CHR 0x22] @ '' class='' @ [CHR 0x22] @ ''btn-match-details'' @ [CHR 0x22] @ ''>''
             @ label_details
             @ ''</a>'' @ [CHR 0x0A] @ ''    ''
       \<and> detailsBtn_click (cards ! 0) = 1
       \<and> detailsBtn_click (cards ! 3) = 4)"
proof -
  have c: "doc (initial_world example_page) ''matches-container'' = Some blank"
    by (rule example_container)
  have cat: "catalog (initial_world example_page) = [match1, match2, match3, match4]"
    by (simp add: initial_world_def matchesData_def)
  have l: "list_all (\<lambda>m. querySelector example_host (card_markup m) ''.btn-match-details'')
         (catalog (initial_world example_page))"
    using example_host_finds by (simp add: initial_world_def)
  then have q: "\<forall>m \<in> set (catalog (initial_world example_page)).
         querySelector example_host (card_markup m) ''.btn-match-details''"
    by (simp add: list_all_iff)
  have ids: "id' match1 = 1" "id' match4 = 4"
    by (simp_all add: match1_def match4_def)
  from loadMatches_renders_catalog [OF c q]
  obtain w' cards where
    r: "loadMatches example_host (initial_world example_page) = Returned w'"
    and k: "map_option childNodes (doc w' ''matches-container'') = Some (map Card cards)"
    and n: "length cards = length (catalog (initial_world example_page))"
    and a: "\<forall>i < length (catalog (initial_world example_page)).
                className (cards ! i) = ''match-card''
              \<and> innerHTML (cards ! i) =
                  [CHR 0x0A] @ ''      <h3>''
                  @ teams (catalog (initial_world example_page) ! i)
                  @ ''</h3>'' @ [CHR 0x0A] @ ''      <p><strong>''
                  @ label_date
                  @ '':</strong> ''
                  @ date (catalog (initial_world example_page) ! i)
                  @ ''</p>'' @ [CHR 0x0A] @ ''      <p><strong>''
                  @ label_time
                  @ '':</strong> ''
                  @ time (catalog (initial_world example_page) ! i)
                  @ ''</p>'' @ [CHR 0x0A] @ ''      <a href='' @ [CHR 0x22] @ ''javascript:void(0)''
                  @ [CHR 0x22] @ '' class='' @ [CHR 0x22] @ ''btn-match-details'' @ [CHR 0x22] @ ''>''
                  @ label_details
                  @ ''</a>'' @ [CHR 0x0A] @ ''    ''
              \<and> detailsBtn_click (cards ! i) = id' (catalog (initial_world example_page) ! i)"
    by blast
  from a have "className (cards ! 0) = ''match-card''"
    and "innerHTML (cards ! 0) =
             [CHR 0x0A] @ ''      <h3>''
             @ teams match1
             @ ''</h3>'' @ [CHR 0x0A] @ ''      <p><strong>''
             @ label_date
             @ '':</strong> ''
             @ date match1
             @ ''</p>'' @ [CHR 0x0A] @ ''      <p><strong>''
             @ label_time
             @ '':</strong> ''
             @ time match1
             @ ''</p>'' @ [CHR 0x0A] @ ''      <a href='' @ [CHR 0x22] @ ''javascript:void(0)''
             @ [CHR 0x22] @ '' class='' @ [CHR 0x22] @ ''btn-match-details'' @ [CHR 0x22] @ ''>''
             @ label_details
             @ ''</a>'' @ [CHR 0x0A] @ ''    ''"
    and "detailsBtn_click (cards ! 0) = 1"
    and "detailsBtn_click (cards ! 3) = 4"
    by (simp_all add: cat ids)
  moreover from n have "length cards = 4" by (simp add: cat)
  ultimately show ?thesis using c l r k by blast
qed

theorem loadMatches_comment_counterexample:
  "doc comment_world ''matches-container'' = Some blank
   \<and> length (catalog comment_world) = 4
   \<and> loadMatches example_host comment_world =
       Thrown TypeError
         (put_element ''matches-container'' (blank\<lparr>childNodes := [Card (make_card match1)]\<rparr>)
            comment_world)
   \<and> map_option childNodes
        (doc (state_of (loadMatches example_host comment_world)) ''matches-container'')
       = Some [Card (make_card match1)]"
proof -
  have "doc comment_world ''matches-container'' = Some blank"
    by (simp add: comment_world_def example_page_def)
  moreover have "length (catalog comment_world) = 4"
    by (simp add: comment_world_def)
  moreover note loadMatches_comment_world
  moreover have "map_option childNodes
        (doc (state_of (loadMatches example_host comment_world)) ''matches-container'')
       = Some [Card (make_card match1)]"
    by (simp add: loadMatches_comment_world put_element_def)
  ultimately show ?thesis by blast
qed




subsection \<open>The modal\<close>


lemma find_match_absent:
  "matchId \<notin> id' ` set ms \<Longrightarrow> find_match ms matchId = None"
  unfolding find_match_def
  by (induction ms) auto

lemma details_markup_not_empty: "details_markup m \<noteq> []"
  by (simp add: details_markup_def)

lemma matchesData_ids: "map id' matchesData = [1, 2, 3, 4]"
  by (simp add: matchesData_def match1_def match2_def match3_def match4_def)

lemma put_element_same:
  "doc w k = Some e \<Longrightarrow> put_element k e w = w"
  by (simp add: put_element_def map_upd_triv)



text \<open>
  C4. For an id that no record of the catalog has, \<open>showMatchDetails\<close> returns with the
  state as it was: the overlay, the content region and all the rest are untouched, and
  nothing is thrown (whether or not the modal's elements are in the document).
\<close>

theorem showMatchDetails_unknown_id:
  assumes "matchId \<notin> id' ` set (catalog w)"
  shows "showMatchDetails matchId w = Returned w"
  using assms by (simp add: showMatchDetails_def find_match_absent)

theorem showMatchDetails_unknown_id_witness:
  "5 \<notin> id' ` set (catalog (initial_world example_page))
   \<and> showMatchDetails 5 (initial_world example_page) = Returned (initial_world example_page)"
proof -
  have "id' ` set (catalog (initial_world example_page)) = set (map id' matchesData)"
    by (simp add: initial_world_def)
  then have a: "5 \<notin> id' ` set (catalog (initial_world example_page))"
    by (simp only: matchesData_ids) simp
  show ?thesis using showMatchDetails_unknown_id [OF a] a by simp
qed

text \<open>
  C5. In a document that has the overlay and the content region, \<open>closeModal\<close>
  returns; the overlay's \<open>display\<close> is then \<open>none\<close> and the content region has no
  children, so the frame is gone. A second call right after gives the same state again,
  and when the overlay's \<open>display\<close> is \<open>none\<close> already the call does no more than
  clear the content region.
\<close>

theorem closeModal_hides_and_clears:
  assumes modal: "doc w ''match-modal'' = Some modal"
    and details: "doc w ''match-details'' = Some matchDetailsEl"
  shows "closeModal w =
           Returned (put_element ''match-details'' (matchDetailsEl\<lparr>childNodes := []\<rparr>)
             (put_element ''match-modal'' (modal\<lparr>display := ''none''\<rparr>) w))
         \<and> and_then (closeModal w) closeModal = closeModal w
         \<and> (display modal = ''none'' \<longrightarrow>
              closeModal w =
                Returned (put_element ''match-details'' (matchDetailsEl\<lparr>childNodes := []\<rparr>) w))
         \<and> map_option display (doc (state_of (closeModal w)) ''match-modal'') = Some ''none''
         \<and> map_option childNodes (doc (state_of (closeModal w)) ''match-details'') = Some []"
proof -
  let ?w1 = "put_element ''match-modal'' (modal\<lparr>display := ''none''\<rparr>) w"
  let ?w2 = "put_element ''match-details'' (matchDetailsEl\<lparr>childNodes := []\<rparr>) ?w1"
  have first: "closeModal w = Returned ?w2"
    using modal details by (simp add: closeModal_def put_element_def set_innerHTML_def)
  have m2: "doc ?w2 ''match-modal'' = Some (modal\<lparr>display := ''none''\<rparr>)"
    by (simp add: put_element_def)
  have d2: "doc ?w2 ''match-details'' = Some (matchDetailsEl\<lparr>childNodes := []\<rparr>)"
    by (simp add: put_element_def)
  have "closeModal ?w2 = Returned ?w2"
    using m2 d2 by (simp add: closeModal_def put_element_def set_innerHTML_def map_upd_triv)
  then have again: "and_then (closeModal w) closeModal = closeModal w"
    by (simp add: first)
  have "display modal = ''none'' \<Longrightarrow> ?w1 = w"
  proof -
    assume "display modal = ''none''"
    then have "modal\<lparr>display := ''none''\<rparr> = modal" by simp
    then show "?w1 = w" using modal by (simp add: put_element_same)
  qed
  moreover have "map_option display (doc (state_of (closeModal w)) ''match-modal'') = Some ''none''"
    by (simp add: first m2)
  moreover have "map_option childNodes (doc (state_of (closeModal w)) ''match-details'') = Some []"
    by (simp add: first d2)
  ultimately show ?thesis using first again by auto
qed

text \<open>The witness closes the modal that shows the second match, whose content region
  holds the frame, and then closes it once more.\<close>

lemma shown_world_modal:
  "doc shown_world ''match-modal'' = Some (blank\<lparr>display := ''block''\<rparr>)"
  "doc shown_world ''match-details'' =
     Some (blank\<lparr>childNodes := [Markup (details_markup match2)]\<rparr>)"
  by (simp_all add: shown_world_def showMatchDetails_def find_match_def initial_world_def
      matchesData_ids [unfolded matchesData_def, simplified] matchesData_def example_page_def
      put_element_def set_innerHTML_def details_markup_not_empty)

lemma closed_world_modal:
  "doc closed_world ''match-modal'' = Some (blank\<lparr>display := ''none''\<rparr>)"
  "doc closed_world ''match-details'' = Some blank"
  by (simp_all add: closed_world_def closeModal_def initial_world_def example_page_def
      put_element_def set_innerHTML_def blank_def)

theorem closeModal_hides_and_clears_witness:
  "doc shown_world ''match-modal'' = Some (blank\<lparr>display := ''block''\<rparr>)
   \<and> doc shown_world ''match-details'' =
       Some (blank\<lparr>childNodes := [Markup (details_markup match2)]\<rparr>)
   \<and> closeModal shown_world =
       Returned (put_element ''match-details''
                  (blank\<lparr>childNodes := [Markup (details_markup match2)], childNodes := []\<rparr>)
                  (put_element ''match-modal'' (blank\<lparr>display := ''block'', display := ''none''\<rparr>)
                     shown_world))
   \<and> map_option display (doc (state_of (closeModal shown_world)) ''match-modal'') = Some ''none''
   \<and> map_option childNodes (doc (state_of (closeModal shown_world)) ''match-details'') = Some []
   \<and> and_then (closeModal shown_world) closeModal = closeModal shown_world
   \<and> doc closed_world ''match-modal'' = Some (blank\<lparr>display := ''none''\<rparr>)
   \<and> doc closed_world ''match-details'' = Some blank
   \<and> display (blank\<lparr>display := ''none''\<rparr>) = ''none''
   \<and> closeModal closed_world = Returned closed_world"
proof -
  note open_modal = closeModal_hides_and_clears [OF shown_world_modal]
  note closed_modal = closeModal_hides_and_clears [OF closed_world_modal]
  have n: "display (blank\<lparr>display := ''none''\<rparr>) = ''none''" by simp
  have b: "blank\<lparr>childNodes := []\<rparr> = blank" by (simp add: blank_def)
  from closed_modal n have "closeModal closed_world =
      Returned (put_element ''match-details'' (blank\<lparr>childNodes := []\<rparr>) closed_world)"
    by blast
  then have "closeModal closed_world = Returned closed_world"
    using closed_world_modal(2) by (simp only: b put_element_same)
  with open_modal n shown_world_modal closed_world_modal show ?thesis by blast
qed

subsection \<open>Elements that the document does not have\<close>

text \<open>\<open>loadMatches\<close> and \<open>startCountdown\<close> check the element they look up, and return
  with nothing done (no interval is scheduled) when it is missing.\<close>

lemma loadMatches_no_container:
  "doc w ''matches-container'' = None \<Longrightarrow> loadMatches h w = Returned w"
  by (simp add: loadMatches_def)

lemma startCountdown_no_container:
  "doc w ''countdown-timer'' = None \<Longrightarrow> startCountdown h s w = Returned w"
  by (simp add: startCountdown_def)

text \<open>The callback of the countdown does not check the slots: with the first slot
  missing, a tick whose target has not passed throws, every second.\<close>

lemma tick_no_days_slot:
  assumes "map_of (intervals w) interval = Some (Num endDate)" and "0 \<le> endDate - now"
    and "doc w ''days'' = None"
  shows "fire interval now w = Thrown TypeError w"
  using assms
  by (simp add: fire_def tick_def Let_def write_slot_def round_to_double_negative)

text \<open>
  C2. \<open>showMatchDetails\<close> and \<open>closeModal\<close> do not check the elements they look up.
  On the page that has the card container but neither the content region nor the
  overlay, \<open>showMatchDetails 1\<close> finds the first record and then throws a \<open>TypeError\<close>,
  and so does \<open>closeModal\<close>: the missing element is not skipped silently.
\<close>

theorem missing_modal_elements_throw:
  "find_match (catalog (initial_world cards_only_page)) 1 = Some match1
   \<and> doc (initial_world cards_only_page) ''match-details'' = None
   \<and> doc (initial_world cards_only_page) ''match-modal'' = None
   \<and> showMatchDetails 1 (initial_world cards_only_page) =
       Thrown TypeError (initial_world cards_only_page)
   \<and> closeModal (initial_world cards_only_page) =
       Thrown TypeError (initial_world cards_only_page)"
proof -
  have f: "find_match (catalog (initial_world cards_only_page)) 1 = Some match1"
    by (simp add: find_match_def initial_world_def matchesData_def match1_def)
  have d: "doc (initial_world cards_only_page) ''match-details'' = None"
    by (simp add: initial_world_def cards_only_page_def)
  have m: "doc (initial_world cards_only_page) ''match-modal'' = None"
    by (simp add: initial_world_def cards_only_page_def)
  show ?thesis using f d m by (simp add: showMatchDetails_def closeModal_def)
qed

subsection \<open>The countdown\<close>

text \<open>A tick of a scheduled interval whose target has not passed writes the four slots,
  in the order days, hours, minutes, seconds.\<close>

lemma fire_running:
  assumes "map_of (intervals w) interval = Some (Num endDate)" and "0 \<le> endDate - now"
  shows "fire interval now w =
     and_then (and_then (and_then
       (write_slot ''days'' (Num (round_to_double (endDate - now) div 86400000)) w)
       (write_slot ''hours'' (Num (round_to_double (endDate - now) mod 86400000 div 3600000))))
       (write_slot ''minutes'' (Num (round_to_double (endDate - now) mod 3600000 div 60000))))
       (write_slot ''seconds'' (Num (round_to_double (endDate - now) mod 60000 div 1000)))"
  using assms by (simp add: fire_def tick_def Let_def round_to_double_negative)

lemma write_slot_present:
  "doc w k = Some e \<Longrightarrow>
   write_slot k v w = Returned (put_element k (e\<lparr>childNodes := [Text (ToString v)]\<rparr>) w)"
  by (simp add: write_slot_def set_textContent_def)

lemma doc_put_other: "k' \<noteq> k \<Longrightarrow> doc (put_element k e w) k' = doc w k'"
  by (simp add: put_element_def)

lemma four_slots:
  assumes "doc w ''days'' = Some d" and "doc w ''hours'' = Some hh"
    and "doc w ''minutes'' = Some mi" and "doc w ''seconds'' = Some s"
  shows "and_then (and_then (and_then (write_slot ''days'' a w) (write_slot ''hours'' b))
           (write_slot ''minutes'' c)) (write_slot ''seconds'' x) =
         Returned
          (put_element ''seconds'' (s\<lparr>childNodes := [Text (ToString x)]\<rparr>)
          (put_element ''minutes'' (mi\<lparr>childNodes := [Text (ToString c)]\<rparr>)
          (put_element ''hours'' (hh\<lparr>childNodes := [Text (ToString b)]\<rparr>)
          (put_element ''days'' (d\<lparr>childNodes := [Text (ToString a)]\<rparr>) w))))"
proof -
  let ?w1 = "put_element ''days'' (d\<lparr>childNodes := [Text (ToString a)]\<rparr>) w"
  let ?w2 = "put_element ''hours'' (hh\<lparr>childNodes := [Text (ToString b)]\<rparr>) ?w1"
  let ?w3 = "put_element ''minutes'' (mi\<lparr>childNodes := [Text (ToString c)]\<rparr>) ?w2"
  have 1: "write_slot ''days'' a w = Returned ?w1"
    using assms(1) by (rule write_slot_present)
  have "doc ?w1 ''hours'' = Some hh" using assms(2) by (simp add: doc_put_other)
  then have 2: "write_slot ''hours'' b ?w1 = Returned ?w2" by (rule write_slot_present)
  have "doc ?w2 ''minutes'' = Some mi" using assms(3) by (simp add: doc_put_other)
  then have 3: "write_slot ''minutes'' c ?w2 = Returned ?w3" by (rule write_slot_present)
  have "doc ?w3 ''seconds'' = Some s" using assms(4) by (simp add: doc_put_other)
  then have 4: "write_slot ''seconds'' x ?w3 = Returned
      (put_element ''seconds'' (s\<lparr>childNodes := [Text (ToString x)]\<rparr>) ?w3)"
    by (rule write_slot_present)
  show ?thesis by (simp only: 1 2 3 4 and_then.simps)
qed

lemma four_slots_shown:
  assumes "doc w ''days'' = Some d" and "doc w ''hours'' = Some hh"
    and "doc w ''minutes'' = Some mi" and "doc w ''seconds'' = Some s"
  shows "\<exists>w'. and_then (and_then (and_then (write_slot ''days'' a w) (write_slot ''hours'' b))
                 (write_slot ''minutes'' c)) (write_slot ''seconds'' x) = Returned w'
           \<and> map_option childNodes (doc w' ''days'') = Some [Text (ToString a)]
           \<and> map_option childNodes (doc w' ''hours'') = Some [Text (ToString b)]
           \<and> map_option childNodes (doc w' ''minutes'') = Some [Text (ToString c)]
           \<and> map_option childNodes (doc w' ''seconds'') = Some [Text (ToString x)]"
  unfolding four_slots [OF assms] by (simp add: put_element_def)

lemma counting_world_eq:
  "counting_world =
     \<lparr> catalog = matchesData, doc = example_page, intervals = [(0, Num 90000)],
       next_handle = Suc 0 \<rparr>"
  by (simp add: counting_world_def startCountdown_def initial_world_def example_page_def
      setInterval_def example_host_def)

lemma far_world_slots:
  "doc far_world ''days'' = Some blank" "doc far_world ''hours'' = Some blank"
  "doc far_world ''minutes'' = Some blank" "doc far_world ''seconds'' = Some blank"
  by (simp_all add: far_world_def example_page_def)

lemma far_world_active: "map_of (intervals far_world) 0 = Some (Num 8640000000000000)"
  by (simp add: far_world_def)

lemma counting_world_slots:
  "doc counting_world ''days'' = Some blank" "doc counting_world ''hours'' = Some blank"
  "doc counting_world ''minutes'' = Some blank" "doc counting_world ''seconds'' = Some blank"
  "doc counting_world ''countdown-timer'' = Some blank"
  by (simp_all add: counting_world_eq example_page_def)

lemma counting_world_active: "map_of (intervals counting_world) 0 = Some (Num 90000)"
  by (simp add: counting_world_eq)

lemma map_of_cleared: "map_of (filter (\<lambda>p. fst p \<noteq> i) xs) i = None"
  by (auto simp: map_of_eq_None_iff)


lemma doc_write_slot_other:
  "k' \<noteq> k \<Longrightarrow> doc (state_of (write_slot k v w)) k' = doc w k'"
  by (simp add: write_slot_def put_element_def split: option.split)

lemma doc_and_then_other:
  assumes "doc (state_of r) k' = doc w k'" and "\<And>w'. doc (state_of (f w')) k' = doc w' k'"
  shows "doc (state_of (and_then r f)) k' = doc w k'"
  using assms by (cases r) simp_all

lemma running_keeps_timer:
  assumes "map_of (intervals w) interval = Some (Num endDate)" and "0 \<le> endDate - now"
  shows "intervals (state_of (fire interval now w)) = intervals w"
    and "doc (state_of (fire interval now w)) ''countdown-timer'' = doc w ''countdown-timer''"
proof -
  show "intervals (state_of (fire interval now w)) = intervals w"
    using assms by (simp add: fire_def intervals_tick round_to_double_negative)
  show "doc (state_of (fire interval now w)) ''countdown-timer'' = doc w ''countdown-timer''"
    unfolding fire_running [OF assms]
    by (intro doc_and_then_other doc_write_slot_other) simp_all
qed













text \<open>
  C6. Take a tick of a scheduled interval, with the target and the clock's reading time
  values, whose remaining distance (the number that \<open>endDate - now\<close> computes) is not
  negative, in a document that has the four slots. The tick returns, and the slots then
  hold, each as one text, the decimal strings of \<open>distance div 86400000\<close> (days),
  \<open>distance mod 86400000 div 3600000\<close> (hours), \<open>distance mod 3600000 div 60000\<close>
  (minutes) and \<open>distance mod 60000 div 1000\<close> (seconds), where \<open>div\<close> is the floor
  of the quotient. For a distance of 90 seconds the slots show 0, 0, 1 and 30. For the
  last time value as the target and the first but one as the clock's reading, the
  distance is the double 17280000000000000 and the slots show 200000000, 0, 0 and 0.
\<close>

theorem countdown_tick_decomposes:
  assumes active: "map_of (intervals w) interval = Some (Num endDate)"
    and target: "time_value endDate" and clock: "time_value now"
    and distance: "minus_number (Num endDate) (Num now) = Num distance"
    and remaining: "0 \<le> distance"
    and days: "doc w ''days'' = Some d" and hours: "doc w ''hours'' = Some hh"
    and minutes: "doc w ''minutes'' = Some mi" and seconds: "doc w ''seconds'' = Some s"
  shows "\<exists>w'. fire interval now w = Returned w'
     \<and> map_option childNodes (doc w' ''days'')
         = Some [Text (ToString (Num (distance div 86400000)))]
     \<and> map_option childNodes (doc w' ''hours'')
         = Some [Text (ToString (Num (distance mod 86400000 div 3600000)))]
     \<and> map_option childNodes (doc w' ''minutes'')
         = Some [Text (ToString (Num (distance mod 3600000 div 60000)))]
     \<and> map_option childNodes (doc w' ''seconds'')
         = Some [Text (ToString (Num (distance mod 60000 div 1000)))]"
proof -
  from distance have eq: "round_to_double (endDate - now) = distance" by simp
  with remaining have "\<not> round_to_double (endDate - now) < 0" by simp
  then have "0 \<le> endDate - now" by (simp add: round_to_double_negative)
  with active have run: "fire interval now w =
     and_then (and_then (and_then
       (write_slot ''days'' (Num (distance div 86400000)) w)
       (write_slot ''hours'' (Num (distance mod 86400000 div 3600000))))
       (write_slot ''minutes'' (Num (distance mod 3600000 div 60000))))
       (write_slot ''seconds'' (Num (distance mod 60000 div 1000)))"
    unfolding eq [symmetric] by (rule fire_running)
  show ?thesis
    unfolding run by (rule four_slots_shown [OF days hours minutes seconds])
qed

theorem countdown_tick_decomposes_witness:
  "map_of (intervals counting_world) 0 = Some (Num 90000)
   \<and> time_value 90000 \<and> time_value 0
   \<and> minus_number (Num 90000) (Num 0) = Num 90000
   \<and> (0::int) \<le> 90000
   \<and> doc counting_world ''days'' = Some blank \<and> doc counting_world ''hours'' = Some blank
   \<and> doc counting_world ''minutes'' = Some blank \<and> doc counting_world ''seconds'' = Some blank
   \<and> (\<exists>w'. fire 0 0 counting_world = Returned w'
         \<and> map_option childNodes (doc w' ''days'') = Some [Text ''0'']
         \<and> map_option childNodes (doc w' ''hours'') = Some [Text ''0'']
         \<and> map_option childNodes (doc w' ''minutes'') = Some [Text ''1'']
         \<and> map_option childNodes (doc w' ''seconds'') = Some [Text ''30''])
   \<and> map_of (intervals far_world) 0 = Some (Num 8640000000000000)
   \<and> time_value 8640000000000000 \<and> time_value (- 8639999999999999)
   \<and> minus_number (Num 8640000000000000) (Num (- 8639999999999999)) = Num 17280000000000000
   \<and> (\<exists>w'. fire 0 (- 8639999999999999) far_world = Returned w'
         \<and> map_option childNodes (doc w' ''days'') = Some [Text ''200000000'']
         \<and> map_option childNodes (doc w' ''hours'') = Some [Text ''0'']
         \<and> map_option childNodes (doc w' ''minutes'') = Some [Text ''0'']
         \<and> map_option childNodes (doc w' ''seconds'') = Some [Text ''0''])"
proof -
  have tv: "time_value 90000" "time_value 0" "time_value 8640000000000000"
    "time_value (- 8639999999999999)"
    by (simp_all add: time_value_def)
  have near: "minus_number (Num 90000) (Num 0) = Num 90000"
    by (simp add: round_to_double_exact)
  have far: "minus_number (Num 8640000000000000) (Num (- 8639999999999999))
      = Num 17280000000000000"
    by (simp only: minus_number.simps round_to_double_far)
  have r: "(0::int) \<le> 90000" "(0::int) \<le> 17280000000000000" by simp_all
  have t: "ToString (Num (90000 div 86400000)) = ''0''"
    "ToString (Num (90000 mod 86400000 div 3600000)) = ''0''"
    "ToString (Num (90000 mod 3600000 div 60000)) = ''1''"
    "ToString (Num (90000 mod 60000 div 1000)) = ''30''"
    "ToString (Num (17280000000000000 div 86400000)) = ''200000000''"
    "ToString (Num (17280000000000000 mod 86400000 div 3600000)) = ''0''"
    "ToString (Num (17280000000000000 mod 3600000 div 60000)) = ''0''"
    "ToString (Num (17280000000000000 mod 60000 div 1000)) = ''0''"
    by (simp_all add: digits.simps)
  note first = countdown_tick_decomposes [OF counting_world_active tv(1,2) near r(1)
      counting_world_slots(1-4), unfolded t]
  note second = countdown_tick_decomposes [OF far_world_active tv(3,4) far r(2)
      far_world_slots, unfolded t]
  show ?thesis
    using first second counting_world_active tv near r(1) counting_world_slots(1-4)
      far_world_active far
    by blast
qed




text \<open>
  C10. A tick at the target instant itself (\<open>now = endDate\<close>, distance 0), in a document
  that has the four slots, returns, and each of the four slots then holds the text 0; the
  interval stays scheduled and the countdown element is not touched. The same holds of
  the interval and the element for every tick with a distance that is not negative, and
  a tick with a negative distance clears the interval.
\<close>

theorem countdown_tick_at_target:
  assumes active: "map_of (intervals w) interval = Some (Num endDate)"
    and days: "doc w ''days'' = Some d" and hours: "doc w ''hours'' = Some hh"
    and minutes: "doc w ''minutes'' = Some mi" and seconds: "doc w ''seconds'' = Some s"
  shows "(\<exists>w'. fire interval endDate w = Returned w'
           \<and> map_option childNodes (doc w' ''days'') = Some [Text ''0'']
           \<and> map_option childNodes (doc w' ''hours'') = Some [Text ''0'']
           \<and> map_option childNodes (doc w' ''minutes'') = Some [Text ''0'']
           \<and> map_option childNodes (doc w' ''seconds'') = Some [Text ''0''])
     \<and> map_of (intervals (state_of (fire interval endDate w))) interval = Some (Num endDate)
     \<and> doc (state_of (fire interval endDate w)) ''countdown-timer'' = doc w ''countdown-timer''
     \<and> (0 \<le> endDate - now \<longrightarrow>
          intervals (state_of (fire interval now w)) = intervals w
          \<and> doc (state_of (fire interval now w)) ''countdown-timer'' = doc w ''countdown-timer'')
     \<and> (endDate - now < 0 \<longrightarrow>
          map_of (intervals (state_of (fire interval now w))) interval = None)"
proof -
  have z: "(0::int) \<le> endDate - endDate" by simp
  have t: "ToString (Num 0) = ''0''" by (simp add: digits.simps)
  have "fire interval endDate w =
     and_then (and_then (and_then
       (write_slot ''days'' (Num 0) w) (write_slot ''hours'' (Num 0)))
       (write_slot ''minutes'' (Num 0))) (write_slot ''seconds'' (Num 0))"
    using fire_running [OF active z] by (simp add: round_to_double_zero)
  then have "\<exists>w'. fire interval endDate w = Returned w'
           \<and> map_option childNodes (doc w' ''days'') = Some [Text ''0'']
           \<and> map_option childNodes (doc w' ''hours'') = Some [Text ''0'']
           \<and> map_option childNodes (doc w' ''minutes'') = Some [Text ''0'']
           \<and> map_option childNodes (doc w' ''seconds'') = Some [Text ''0'']"
    using four_slots_shown [OF days hours minutes seconds, of "Num 0" "Num 0" "Num 0" "Num 0"]
    by (simp only: t)
  moreover have "map_of (intervals (state_of (fire interval endDate w))) interval
      = Some (Num endDate)"
    using running_keeps_timer(1) [OF active z] active by simp
  moreover note running_keeps_timer(2) [OF active z]
  moreover have "0 \<le> endDate - now \<longrightarrow>
          intervals (state_of (fire interval now w)) = intervals w
          \<and> doc (state_of (fire interval now w)) ''countdown-timer'' = doc w ''countdown-timer''"
    using running_keeps_timer [OF active] by blast
  moreover have "endDate - now < 0 \<longrightarrow>
          map_of (intervals (state_of (fire interval now w))) interval = None"
    using active
    by (simp add: fire_def intervals_tick map_of_cleared round_to_double_negative)
  ultimately show ?thesis by blast
qed

theorem countdown_tick_at_target_witness:
  "map_of (intervals counting_world) 0 = Some (Num 90000)
   \<and> doc counting_world ''days'' = Some blank \<and> doc counting_world ''hours'' = Some blank
   \<and> doc counting_world ''minutes'' = Some blank \<and> doc counting_world ''seconds'' = Some blank
   \<and> (0::int) \<le> 90000 - 89000 \<and> (90000::int) - 90001 < 0
   \<and> (\<exists>w'. fire 0 90000 counting_world = Returned w'
           \<and> map_option childNodes (doc w' ''days'') = Some [Text ''0'']
           \<and> map_option childNodes (doc w' ''hours'') = Some [Text ''0'']
           \<and> map_option childNodes (doc w' ''minutes'') = Some [Text ''0'']
           \<and> map_option childNodes (doc w' ''seconds'') = Some [Text ''0''])
   \<and> map_of (intervals (state_of (fire 0 90000 counting_world))) 0 = Some (Num 90000)
   \<and> doc (state_of (fire 0 90000 counting_world)) ''countdown-timer'' = Some blank
   \<and> intervals (state_of (fire 0 89000 counting_world)) = intervals counting_world
   \<and> doc (state_of (fire 0 89000 counting_world)) ''countdown-timer'' = Some blank
   \<and> map_of (intervals (state_of (fire 0 90001 counting_world))) 0 = None"
proof -
  have a: "(0::int) \<le> 90000 - 89000" and b: "(90000::int) - 90001 < 0" by simp_all
  note at = countdown_tick_at_target [OF counting_world_active counting_world_slots(1-4),
      unfolded counting_world_slots(5)]
  show ?thesis
    using at [of 89000] at [of 90001] a b counting_world_active counting_world_slots(1-4)
    by blast
qed

subsection \<open>The catalog\<close>

text \<open>
  C9. The ids of the four records of \<open>matchesData\<close> are pairwise distinct, the page
  starts with that array as its catalog, and the catalog is the same after any sequence
  of events (calls of the four functions, the page-ready handler, clicks on the details
  controls and on the wired elements, runs of interval callbacks), from any state.
\<close>

theorem catalog_never_mutated:
  "distinct (map id' matchesData)
   \<and> catalog (initial_world d) = matchesData
   \<and> catalog (run h evs (initial_world d)) = matchesData
   \<and> catalog (run h evs w) = catalog w"
  by (simp add: catalog_run initial_world_def)
     (simp add: matchesData_def match1_def match2_def match3_def match4_def)

end
